theory Spec2Isabelle
  imports Main "HOL-Library.Multiset" "HOL-Library.List_Lexorder" "HOL-Library.Char_ord"
begin

section \<open>Data model (data/api.ts)\<close>

text \<open>
  The interfaces of the remote data client become records. A field the interface marks
  optional (\<^verbatim>\<open>position?: string | null\<close>, \<^verbatim>\<open>isFavorite?: boolean\<close>) is an option:
  \<open>None\<close> stands for an absent, \<^verbatim>\<open>undefined\<close> or \<^verbatim>\<open>null\<close> member. JavaScript numbers
  that carry counts, offsets, seconds and millisecond timestamps are integers. Strings are
  lists of characters. Where two interfaces share a member name, the record declared
  later owns the short name and the earlier one is written qualified.
\<close>

record VideoItem =
  itemId :: string
  title :: string
  summary :: string
  filePath :: string
  clipCount :: int
  mainTags :: "string list"
  subTags :: "string list"
  createdAt :: string

record LibraryMeta =
  mainTagOptions :: "string list"
  videoTagOptions :: "string list"
  subTagOptions :: "string list"
  positionOptions :: "string list"

datatype clip_type = Concept | Technique

record Clip =
  clipId :: string
  videoId :: string
  title :: string
  type :: clip_type
  duration :: int
  tags :: "string list"
  mainTags :: "string list"
  videoTags :: "string list"
  subTags :: "string list"
  position :: "string option"
  sourceCourse :: string
  sourceVideo :: "string option"
  timestampStart :: string
  timestampEnd :: string
  summary :: string
  isFavorite :: "bool option"
  createdAt :: string
  filePath :: string
  thumbnailUrl :: "string option"

record ClipsPage =
  clips :: "Clip list"
  limit :: int
  offset :: int
  nextOffset :: int
  hasMore :: bool

text \<open>The member \<^verbatim>\<open>type\<close> as the string the filter sidebar puts into its selection set.\<close>

fun type_string :: "clip_type \<Rightarrow> string" where
  "type_string Concept = ''Concept''"
| "type_string Technique = ''Technique''"

text \<open>JavaScript truthiness of an optional boolean: \<^verbatim>\<open>undefined\<close> and \<^verbatim>\<open>false\<close> are falsy.\<close>

fun truthy :: "bool option \<Rightarrow> bool" where
  "truthy None = False"
| "truthy (Some b) = b"

section \<open>Cache store (library.tsx, lines 24 to 84)\<close>

text \<open>
  \<open>library_data\<close> is the object type of the argument of \<^verbatim>\<open>persistCache\<close>;
  \<^verbatim>\<open>CachedLibraryState\<close> adds the capture timestamp, as \<^verbatim>\<open>{...next, cachedAt: Date.now()}\<close>
  does.
\<close>

record library_data =
  clips :: "Clip list"
  hasMoreFromServer :: bool
  nextOffset :: int
  mainTagOptions :: "string list"
  videoTagOptions :: "string list"
  subTagOptions :: "string list"
  positionOptions :: "string list"

record CachedLibraryState = library_data +
  cachedAt :: int

definition CACHE_TTL_MS :: int where
  "CACHE_TTL_MS = 10 * 60 * 1000"

text \<open>
  What the subtraction \<^verbatim>\<open>now - x.cachedAt\<close> makes of the member \<^verbatim>\<open>cachedAt\<close> of a value: a
  number, \<^verbatim>\<open>NaN\<close> (the member is absent, or is a string, array or object that does not convert
  to a number), or an infinity (a numeral beyond the range of a double). Time stamps are
  whole milliseconds.
\<close>

datatype stamp = At int | NotANumber | PlusInfinity | MinusInfinity

text \<open>The two tests of \<^verbatim>\<open>readCachedState\<close>; every comparison with \<^verbatim>\<open>NaN\<close> is false.\<close>

fun age_below_ttl :: "int \<Rightarrow> stamp \<Rightarrow> bool" where
  "age_below_ttl now (At t) = (now - t < CACHE_TTL_MS)"
| "age_below_ttl now NotANumber = False"
| "age_below_ttl now PlusInfinity = True"
| "age_below_ttl now MinusInfinity = False"

fun age_reaches_ttl :: "int \<Rightarrow> stamp \<Rightarrow> bool" where
  "age_reaches_ttl now (At t) = (now - t \<ge> CACHE_TTL_MS)"
| "age_reaches_ttl now NotANumber = False"
| "age_reaches_ttl now PlusInfinity = False"
| "age_reaches_ttl now MinusInfinity = True"

text \<open>
  A value that flows through the cache at run time. \<^verbatim>\<open>JSON.parse(raw) as CachedLibraryState\<close>
  is an unchecked assertion, so the cache can hold any value \<^verbatim>\<open>JSON.parse\<close> returns. The
  values other than \<^verbatim>\<open>null\<close> are classified by what the code observes of them:
  \<^item> \<open>Entry d t\<close>: an object whose seven library members are of their declared types, with
    the values \<open>d\<close>, and whose \<^verbatim>\<open>cachedAt\<close> reads as \<open>t\<close>;
  \<^item> \<open>Truthy t\<close>: any other truthy value (an object or array without those members, a
    non-empty string, a non-zero number, \<^verbatim>\<open>true\<close>) whose \<^verbatim>\<open>cachedAt\<close> reads as \<open>t\<close>;
  \<^item> \<open>Falsy\<close>: \<^verbatim>\<open>false\<close>, \<^verbatim>\<open>0\<close> or the empty string, which have no member \<^verbatim>\<open>cachedAt\<close>.
  A snapshot is an entry whose stamp is its time of capture.
\<close>

datatype cached_value = Entry library_data stamp | Truthy stamp | Falsy

definition Snapshot :: "CachedLibraryState \<Rightarrow> cached_value" where
  "Snapshot s =
     Entry \<lparr>clips = clips s, hasMoreFromServer = hasMoreFromServer s, nextOffset = nextOffset s,
             mainTagOptions = mainTagOptions s, videoTagOptions = videoTagOptions s,
             subTagOptions = subTagOptions s, positionOptions = positionOptions s\<rparr>
           (At (cachedAt s))"

fun stamp_of :: "cached_value \<Rightarrow> stamp" where
  "stamp_of (Entry d t) = t"
| "stamp_of (Truthy t) = t"
| "stamp_of Falsy = NotANumber"

fun truthy_value :: "cached_value \<Rightarrow> bool" where
  "truthy_value (Entry d t) = True"
| "truthy_value (Truthy t) = True"
| "truthy_value Falsy = False"

text \<open>An entry with a numeric stamp has the shape of a \<^verbatim>\<open>CachedLibraryState\<close>.\<close>

fun is_snapshot :: "cached_value \<Rightarrow> bool" where
  "is_snapshot (Entry d (At t)) = True"
| "is_snapshot v = False"

text \<open>
  The text stored under a key of \<^verbatim>\<open>sessionStorage\<close>: a text that \<^verbatim>\<open>JSON.parse\<close> rejects (the
  empty string among them), given as it is, or a text that \<^verbatim>\<open>JSON.parse\<close> accepts, given by
  the value it parses to.
\<close>

datatype parsed = ParsedNull | ParsedValue cached_value

datatype stored_text = Unparsable string | JsonText parsed

text \<open>\<^verbatim>\<open>JSON.parse\<close>; \<open>None\<close> is the thrown \<^verbatim>\<open>SyntaxError\<close>.\<close>

fun JSON_parse :: "stored_text \<Rightarrow> parsed option" where
  "JSON_parse (Unparsable t) = None"
| "JSON_parse (JsonText p) = Some p"

text \<open>The text \<^verbatim>\<open>JSON.stringify\<close> writes for a snapshot parses back to that snapshot.\<close>

definition StateText :: "CachedLibraryState \<Rightarrow> stored_text" where
  "StateText s = JsonText (ParsedValue (Snapshot s))"

definition JSON_stringify :: "CachedLibraryState \<Rightarrow> stored_text" where
  "JSON_stringify s = StateText s"

text \<open>
  How the browser's session storage behaves: it works; \<^verbatim>\<open>setItem\<close> throws (quota exceeded,
  private mode) while reads and removals work; or every access throws (storage disabled).
\<close>

datatype storage_mode = Working | QuotaExceeded | Blocked

record cache_store =
  memoryCache :: "string \<rightharpoonup> cached_value"
  sessionStorage :: "string \<rightharpoonup> stored_text"
  storage :: storage_mode

text \<open>The exceptions the cache code can meet inside its \<^verbatim>\<open>try\<close> blocks.\<close>

datatype storage_exn = SecurityError | QuotaExceededError | SyntaxError | TypeError

text \<open>The three calls on \<^verbatim>\<open>sessionStorage\<close>; \<open>Inl\<close> is a thrown exception.\<close>

definition getItem :: "string \<Rightarrow> cache_store \<Rightarrow> storage_exn + stored_text option" where
  "getItem key c = (if storage c = Blocked then Inl SecurityError else Inr (sessionStorage c key))"

definition setItem :: "string \<Rightarrow> stored_text \<Rightarrow> cache_store \<Rightarrow> storage_exn + cache_store" where
  "setItem key text c =
     (case storage c of
        Blocked \<Rightarrow> Inl SecurityError
      | QuotaExceeded \<Rightarrow> Inl QuotaExceededError
      | Working \<Rightarrow> Inr (c\<lparr>sessionStorage := (sessionStorage c)(key \<mapsto> text)\<rparr>))"

definition removeItem :: "string \<Rightarrow> cache_store \<Rightarrow> storage_exn + cache_store" where
  "removeItem key c =
     (if storage c = Blocked then Inl SecurityError
      else Inr (c\<lparr>sessionStorage := (sessionStorage c)(key := None)\<rparr>))"

definition cacheKey :: "bool \<Rightarrow> string" where
  "cacheKey favoritesOnly = ''clip-library:'' @ (if favoritesOnly then ''favorites'' else ''all'')"

text \<open>One round of the loop of \<^verbatim>\<open>clearLibraryCaches\<close>; a throwing \<^verbatim>\<open>removeItem\<close> is ignored.\<close>

definition clear_key :: "string \<Rightarrow> cache_store \<Rightarrow> cache_store" where
  "clear_key key c =
     (let c1 = c\<lparr>memoryCache := (memoryCache c)(key := None)\<rparr>
      in case removeItem key c1 of Inl e \<Rightarrow> c1 | Inr c2 \<Rightarrow> c2)"

definition clearLibraryCaches :: "cache_store \<Rightarrow> cache_store" where
  "clearLibraryCaches c = fold clear_key [cacheKey False, cacheKey True] c"

text \<open>
  The \<^verbatim>\<open>try\<close> block of \<^verbatim>\<open>readCachedState\<close> at time \<open>now\<close>; the result \<open>None\<close> is
  \<^verbatim>\<open>null\<close>. An absent or empty item returns \<^verbatim>\<open>null\<close>; a text that does not parse throws;
  \<^verbatim>\<open>null.cachedAt\<close> throws; a value for which \<^verbatim>\<open>now - parsed.cachedAt >= CACHE_TTL_MS\<close> holds
  is removed; every other value is promoted to the memory tier and returned as it is.
\<close>

definition try_read :: "int \<Rightarrow> string \<Rightarrow> cache_store \<Rightarrow> storage_exn + (cached_value option \<times> cache_store)" where
  "try_read now key c =
     (case getItem key c of
        Inl e \<Rightarrow> Inl e
      | Inr None \<Rightarrow> Inr (None, c)
      | Inr (Some raw) \<Rightarrow>
          if raw = Unparsable [] then Inr (None, c)
          else (case JSON_parse raw of
            None \<Rightarrow> Inl SyntaxError
          | Some ParsedNull \<Rightarrow> Inl TypeError
          | Some (ParsedValue p) \<Rightarrow>
              if age_reaches_ttl now (stamp_of p)
              then (case removeItem key c of Inl e \<Rightarrow> Inl e | Inr c1 \<Rightarrow> Inr (None, c1))
              else Inr (Some p, c\<lparr>memoryCache := (memoryCache c)(key \<mapsto> p)\<rparr>)))"

text \<open>The test \<^verbatim>\<open>inMemory && now - inMemory.cachedAt < CACHE_TTL_MS\<close>.\<close>

definition memory_fresh :: "int \<Rightarrow> string \<Rightarrow> cache_store \<Rightarrow> bool" where
  "memory_fresh now key c =
     (case memoryCache c key of
        Some inMemory \<Rightarrow> truthy_value inMemory \<and> age_below_ttl now (stamp_of inMemory)
      | None \<Rightarrow> False)"

text \<open>\<^verbatim>\<open>readCachedState\<close>: the memory tier, then the \<^verbatim>\<open>try\<close> block, whose \<^verbatim>\<open>catch\<close> returns \<^verbatim>\<open>null\<close>.\<close>

definition readCachedState :: "int \<Rightarrow> bool \<Rightarrow> cache_store \<Rightarrow> cached_value option \<times> cache_store" where
  "readCachedState now favoritesOnly c =
     (let key = cacheKey favoritesOnly
      in if memory_fresh now key c then (memoryCache c key, c)
         else (case try_read now key c of Inl e \<Rightarrow> (None, c) | Inr r \<Rightarrow> r))"

text \<open>\<^verbatim>\<open>writeCachedState\<close>: the memory tier always; a throwing \<^verbatim>\<open>setItem\<close> is ignored.\<close>

definition writeCachedState :: "bool \<Rightarrow> CachedLibraryState \<Rightarrow> cache_store \<Rightarrow> cache_store" where
  "writeCachedState favoritesOnly state c =
     (let key = cacheKey favoritesOnly;
          c1 = c\<lparr>memoryCache := (memoryCache c)(key \<mapsto> Snapshot state)\<rparr>
      in case setItem key (JSON_stringify state) c1 of Inl e \<Rightarrow> c1 | Inr c2 \<Rightarrow> c2)"






text \<open>Sample values for the closed instances below.\<close>

definition empty_store :: "storage_mode \<Rightarrow> cache_store" where
  "empty_store m = \<lparr>memoryCache = Map.empty, sessionStorage = Map.empty, storage = m\<rparr>"

definition empty_snapshot :: "int \<Rightarrow> CachedLibraryState" where
  "empty_snapshot T = \<lparr>clips = [], hasMoreFromServer = False, nextOffset = 0, mainTagOptions = [],
     videoTagOptions = [], subTagOptions = [], positionOptions = [], cachedAt = T\<rparr>"


section \<open>Component state (library.tsx, lines 86 to 107)\<close>

datatype ViewMode = Grid | ListMode

datatype SortMode = Default | Shortest | Longest

text \<open>
  The \<^verbatim>\<open>useState\<close> cells of \<^verbatim>\<open>ClipLibraryPage\<close>. The seven cells that \<^verbatim>\<open>persistCache\<close>
  copies are the \<open>library_data\<close> part. A \<^verbatim>\<open>Set<string>\<close> is a set of strings.
\<close>

record page_state = library_data +
  isLoading :: bool
  isLoadingMore :: bool
  errorMessage :: "string option"
  searchQuery :: string
  selectedTypes :: "string set"
  selectedMainTags :: "string set"
  selectedVideoTags :: "string set"
  selectedSubTags :: "string set"
  selectedPositions :: "string set"
  viewMode :: ViewMode
  sortMode :: SortMode
  selectedClip :: "Clip option"
  mobileFiltersOpen :: bool

section \<open>Filtering and sorting (library.tsx, lines 281 to 349)\<close>

text \<open>
  A string is its sequence of code units. \<^verbatim>\<open>String.prototype.toLowerCase\<close> belongs to the
  engine, not to this program: the filter takes it as the parameter \<open>toLowerCase\<close>, and what
  is proved of the filter holds for every function in its place.
\<close>

text \<open>\<^verbatim>\<open>String.prototype.includes\<close>: the second string occurs in the first as a contiguous run.\<close>

fun startsWith :: "string \<Rightarrow> string \<Rightarrow> bool" where
  "startsWith s [] = True"
| "startsWith [] (q # qs) = False"
| "startsWith (ch # s) (q # qs) = (ch = q \<and> startsWith s qs)"

fun str_includes :: "string \<Rightarrow> string \<Rightarrow> bool" where
  "str_includes [] q = (q = [])"
| "str_includes (ch # s) q = (startsWith (ch # s) q \<or> str_includes s q)"

text \<open>The predicate of the search filter; \<open>query\<close> is the lower-cased search text.\<close>

definition search_matches :: "(string \<Rightarrow> string) \<Rightarrow> string \<Rightarrow> Clip \<Rightarrow> bool" where
  "search_matches toLowerCase query clip =
     (str_includes (toLowerCase (title clip)) query \<or>
      str_includes (toLowerCase (summary clip)) query \<or>
      list_ex (\<lambda>tag. str_includes (toLowerCase tag) query) (tags clip))"

text \<open>
  The predicate of the position filter, \<^verbatim>\<open>clip.position && selectedPositions.has(clip.position)\<close>:
  an absent position and the empty string are both falsy.
\<close>

definition position_matches :: "string set \<Rightarrow> Clip \<Rightarrow> bool" where
  "position_matches selected clip =
     (case position clip of
        None \<Rightarrow> False
      | Some p \<Rightarrow> p \<noteq> [] \<and> p \<in> selected)"

text \<open>The \<^verbatim>\<open>switch (sortMode)\<close>; \<^verbatim>\<open>Array.prototype.sort\<close> is stable, as \<open>sort_key\<close> is.\<close>

fun apply_sort :: "SortMode \<Rightarrow> Clip list \<Rightarrow> Clip list" where
  "apply_sort Shortest result = sort_key duration result"
| "apply_sort Longest result = sort_key (\<lambda>clip. - duration clip) result"
| "apply_sort Default result = result"

definition filteredClips :: "(string \<Rightarrow> string) \<Rightarrow> page_state \<Rightarrow> Clip list" where
  "filteredClips toLowerCase s =
     (let result = clips s;
          result = (if searchQuery s \<noteq> []
                    then filter (search_matches toLowerCase (toLowerCase (searchQuery s))) result
                    else result);
          result = (if selectedTypes s \<noteq> {}
                    then filter (\<lambda>clip. type_string (type clip) \<in> selectedTypes s) result
                    else result);
          result = (if selectedMainTags s \<noteq> {}
                    then filter (\<lambda>clip. list_ex (\<lambda>tag. tag \<in> selectedMainTags s) (mainTags clip)) result
                    else result);
          result = (if selectedVideoTags s \<noteq> {}
                    then filter (\<lambda>clip. list_ex (\<lambda>tag. tag \<in> selectedVideoTags s) (videoTags clip)) result
                    else result);
          result = (if selectedSubTags s \<noteq> {}
                    then filter (\<lambda>clip. list_ex (\<lambda>tag. tag \<in> selectedSubTags s) (subTags clip)) result
                    else result);
          result = (if selectedPositions s \<noteq> {}
                    then filter (position_matches (selectedPositions s)) result
                    else result)
      in apply_sort (sortMode s) result)"

subsection \<open>The filter as the specification words it\<close>

text \<open>
  A facet with no selection accepts every clip; a facet with selections accepts a clip
  when one of the clip's values in that facet is selected.
\<close>

definition facet_accepts :: "string set \<Rightarrow> string list \<Rightarrow> bool" where
  "facet_accepts selected vals = (selected = {} \<or> list_ex (\<lambda>v. v \<in> selected) vals)"

text \<open>
  The search facet: no constraint for an empty query, else the query is a case-insensitive
  substring of the title, of the summary or of some general tag; two strings are compared
  without case by comparing what the engine's \<open>toLowerCase\<close> makes of them.
\<close>

definition ci_substring :: "(string \<Rightarrow> string) \<Rightarrow> string \<Rightarrow> string \<Rightarrow> bool" where
  "ci_substring toLowerCase q s = str_includes (toLowerCase s) (toLowerCase q)"

definition search_accepts :: "(string \<Rightarrow> string) \<Rightarrow> string \<Rightarrow> Clip \<Rightarrow> bool" where
  "search_accepts toLowerCase q clip =
     (q = [] \<or> ci_substring toLowerCase q (title clip) \<or>
      ci_substring toLowerCase q (summary clip) \<or>
      list_ex (ci_substring toLowerCase q) (tags clip))"

text \<open>The values of a clip in the position facet, as the claim reads them: its position, if any.\<close>

definition position_values :: "Clip \<Rightarrow> string list" where
  "position_values clip = (case position clip of None \<Rightarrow> [] | Some p \<Rightarrow> [p])"

text \<open>The same, as the code reads them: a position that is the empty string counts as none.\<close>

definition nonempty_position_values :: "Clip \<Rightarrow> string list" where
  "nonempty_position_values clip = filter (\<lambda>p. p \<noteq> []) (position_values clip)"

definition passes_claimed :: "(string \<Rightarrow> string) \<Rightarrow> page_state \<Rightarrow> Clip \<Rightarrow> bool" where
  "passes_claimed toLowerCase s clip =
     (search_accepts toLowerCase (searchQuery s) clip \<and>
      facet_accepts (selectedTypes s) [type_string (type clip)] \<and>
      facet_accepts (selectedMainTags s) (mainTags clip) \<and>
      facet_accepts (selectedVideoTags s) (videoTags clip) \<and>
      facet_accepts (selectedSubTags s) (subTags clip) \<and>
      facet_accepts (selectedPositions s) (position_values clip))"

definition passes :: "(string \<Rightarrow> string) \<Rightarrow> page_state \<Rightarrow> Clip \<Rightarrow> bool" where
  "passes toLowerCase s clip =
     (search_accepts toLowerCase (searchQuery s) clip \<and>
      facet_accepts (selectedTypes s) [type_string (type clip)] \<and>
      facet_accepts (selectedMainTags s) (mainTags clip) \<and>
      facet_accepts (selectedVideoTags s) (videoTags clip) \<and>
      facet_accepts (selectedSubTags s) (subTags clip) \<and>
      facet_accepts (selectedPositions s) (nonempty_position_values clip))"

text \<open>
  One function that may stand for \<open>toLowerCase\<close> in a closed instance: it lower-cases the
  letters A to Z and keeps every other code unit, as the engine does on ASCII text.
\<close>

definition ascii_lower_char :: "char \<Rightarrow> char" where
  "ascii_lower_char ch =
     (case map_of (zip ''ABCDEFGHIJKLMNOPQRSTUVWXYZ'' ''abcdefghijklmnopqrstuvwxyz'') ch of
        Some l \<Rightarrow> l
      | None \<Rightarrow> ch)"

definition ascii_lower :: "string \<Rightarrow> string" where
  "ascii_lower s = map ascii_lower_char s"

text \<open>A sample clip and the component's initial state, for the closed instances below.\<close>

definition sample_clip :: "string \<Rightarrow> Clip" where
  "sample_clip i = \<lparr>clipId = i, videoId = ''v1'', title = ''Armbar Setup'', type = Technique,
     duration = 30, tags = [''Guard''], mainTags = [''A''], videoTags = [], subTags = [],
     position = None, sourceCourse = ''course'', sourceVideo = None, timestampStart = ''00:10'',
     timestampEnd = ''00:40'', summary = ''from closed guard'', isFavorite = Some False,
     createdAt = ''2024-01-01'', filePath = ''clips/a.mp4'', thumbnailUrl = None\<rparr>"

text \<open>The initial values of the \<^verbatim>\<open>useState\<close> cells.\<close>

definition initial_state :: page_state where
  "initial_state = \<lparr>clips = [], hasMoreFromServer = False, nextOffset = 0, mainTagOptions = [],
     videoTagOptions = [], subTagOptions = [], positionOptions = [],
     isLoading = True, isLoadingMore = False, errorMessage = None, searchQuery = [],
     selectedTypes = {}, selectedMainTags = {}, selectedVideoTags = {}, selectedSubTags = {},
     selectedPositions = {}, viewMode = Grid, sortMode = Default, selectedClip = None,
     mobileFiltersOpen = False\<rparr>"

text \<open>States for the closed instances of the filter.\<close>

definition blank_position_clip :: Clip where
  "blank_position_clip = (sample_clip ''c1'')\<lparr>position := Some []\<rparr>"

definition blank_position_state :: page_state where
  "blank_position_state = initial_state\<lparr>clips := [blank_position_clip], selectedPositions := {[]}\<rparr>"

definition two_clip_state :: page_state where
  "two_clip_state = initial_state\<lparr>clips :=
     [(sample_clip ''c1'')\<lparr>mainTags := [''A'', ''B''], type := Concept\<rparr>,
      (sample_clip ''c2'')\<lparr>mainTags := [''A'']\<rparr>]\<rparr>"

section \<open>Remote data client (data/api.ts)\<close>

text \<open>
  What a client function hands to \<^verbatim>\<open>fetch\<close>: the endpoint and its parameters. The paths
  behind the constructors are \<^verbatim>\<open>/api/library/meta\<close>, \<^verbatim>\<open>/api/library/clips?limit&offset\<close>,
  \<^verbatim>\<open>/api/library/favorites?limit&offset\<close>, \<^verbatim>\<open>POST /api/clips/{id}/favorite?value\<close> and
  \<^verbatim>\<open>/api/library/videos\<close>, each after the configured base URL.
\<close>

datatype request =
    GetLibraryMeta
  | GetLibraryClips int int
  | GetLibraryFavorites int int
  | PostClipFavorite string bool
  | GetLibraryVideos

text \<open>
  What \<^verbatim>\<open>fetch\<close> answers: the promise rejects (a network failure, with the engine's
  message), or it resolves to a response with a status code and a body. The body is
  either text that \<^verbatim>\<open>response.json()\<close> rejects (with the engine's message) or JSON of the
  shape the endpoint's type assertion names.
\<close>

datatype 'b http_body = NotJson string | Json 'b

datatype 'b fetch_outcome = Rejected string | Response nat "'b http_body"

text \<open>\<^verbatim>\<open>response.ok\<close>: the status is in the range 200 to 299.\<close>

definition ok :: "nat \<Rightarrow> bool" where
  "ok status = (200 \<le> status \<and> status \<le> 299)"

text \<open>
  What a client function throws: the \<^verbatim>\<open>Error\<close> it constructs itself, the \<^verbatim>\<open>TypeError\<close> of
  a rejected \<^verbatim>\<open>fetch\<close>, or the \<^verbatim>\<open>SyntaxError\<close> of \<^verbatim>\<open>response.json()\<close>. All three are
  instances of \<^verbatim>\<open>Error\<close> and carry a message.
\<close>

datatype thrown = Error string | FetchTypeError string | JsonSyntaxError string

fun message :: "thrown \<Rightarrow> string" where
  "message (Error m) = m"
| "message (FetchTypeError m) = m"
| "message (JsonSyntaxError m) = m"

text \<open>\<^verbatim>\<open>await response.json()\<close>.\<close>

fun json :: "'b http_body \<Rightarrow> thrown + 'b" where
  "json (NotJson m) = Inl (JsonSyntaxError m)"
| "json (Json b) = Inr b"

text \<open>
  Each client function takes the network as a function from the request to its outcome
  and returns the requests it issued, in order, with the settlement of its promise
  (\<open>Inl\<close> is a rejection). The default arguments of the two page functions (limit 36,
  offset 0) are not modelled: every caller passes both.
\<close>

definition fetchLibraryMeta ::
  "(request \<Rightarrow> LibraryMeta fetch_outcome) \<Rightarrow> request list \<times> (thrown + LibraryMeta)" where
  "fetchLibraryMeta fetch =
     (let req = GetLibraryMeta
      in ([req],
          case fetch req of
            Rejected m \<Rightarrow> Inl (FetchTypeError m)
          | Response status body \<Rightarrow>
              if \<not> ok status then Inl (Error ''Failed to load library metadata'')
              else json body))"

definition fetchLibraryClips ::
  "(request \<Rightarrow> ClipsPage fetch_outcome) \<Rightarrow> int \<Rightarrow> int \<Rightarrow> request list \<times> (thrown + ClipsPage)" where
  "fetchLibraryClips fetch lim off =
     (let req = GetLibraryClips lim off
      in ([req],
          case fetch req of
            Rejected m \<Rightarrow> Inl (FetchTypeError m)
          | Response status body \<Rightarrow>
              if \<not> ok status then Inl (Error ''Failed to load clips'')
              else json body))"

definition fetchFavoriteClips ::
  "(request \<Rightarrow> ClipsPage fetch_outcome) \<Rightarrow> int \<Rightarrow> int \<Rightarrow> request list \<times> (thrown + ClipsPage)" where
  "fetchFavoriteClips fetch lim off =
     (let req = GetLibraryFavorites lim off
      in ([req],
          case fetch req of
            Rejected m \<Rightarrow> Inl (FetchTypeError m)
          | Response status body \<Rightarrow>
              if \<not> ok status then Inl (Error ''Failed to load favorite clips'')
              else json body))"

text \<open>\<^verbatim>\<open>setClipFavorite\<close> never reads the body.\<close>

definition setClipFavorite ::
  "(request \<Rightarrow> 'b fetch_outcome) \<Rightarrow> string \<Rightarrow> bool \<Rightarrow> request list \<times> (thrown + unit)" where
  "setClipFavorite fetch cid val =
     (let req = PostClipFavorite cid val
      in ([req],
          case fetch req of
            Rejected m \<Rightarrow> Inl (FetchTypeError m)
          | Response status body \<Rightarrow>
              if \<not> ok status then Inl (Error ''Failed to update favorite'')
              else Inr ()))"

text \<open>The body of \<^verbatim>\<open>/api/library/videos\<close> is an object with the member \<^verbatim>\<open>videos\<close>.\<close>

record videos_envelope =
  videos :: "VideoItem list"

definition fetchVideos ::
  "(request \<Rightarrow> videos_envelope fetch_outcome) \<Rightarrow> request list \<times> (thrown + VideoItem list)" where
  "fetchVideos fetch =
     (let req = GetLibraryVideos
      in ([req],
          case fetch req of
            Rejected m \<Rightarrow> Inl (FetchTypeError m)
          | Response status body \<Rightarrow>
              if \<not> ok status then Inl (Error ''Failed to load videos'')
              else (case json body of Inl e \<Rightarrow> Inl e | Inr data \<Rightarrow> Inr (videos data))))"

text \<open>Sample values for the closed instances of the client.\<close>

definition sample_page :: "Clip list \<Rightarrow> int \<Rightarrow> bool \<Rightarrow> ClipsPage" where
  "sample_page cs nxt has_more = \<lparr>ClipsPage.clips = cs, limit = 30, offset = nxt - 30,
     ClipsPage.nextOffset = nxt, hasMore = has_more\<rparr>"

text \<open>Two servers: one that answers every request with status 503, one that answers 200 with a given body.\<close>

definition unavailable :: "request \<Rightarrow> 'b fetch_outcome" where
  "unavailable req = Response 503 (NotJson ''Service Unavailable'')"

definition serving :: "'b \<Rightarrow> request \<Rightarrow> 'b fetch_outcome" where
  "serving b req = Response 200 (Json b)"

definition sample_meta :: LibraryMeta where
  "sample_meta = \<lparr>LibraryMeta.mainTagOptions = [''A''], LibraryMeta.videoTagOptions = [],
     LibraryMeta.subTagOptions = [], LibraryMeta.positionOptions = [''Guard'']\<rparr>"

definition sample_video :: VideoItem where
  "sample_video = \<lparr>itemId = ''v1'', VideoItem.title = ''Course video'', VideoItem.summary = ''all of it'',
     VideoItem.filePath = ''videos/v1.mp4'', clipCount = 2, VideoItem.mainTags = [''A''],
     VideoItem.subTags = [], VideoItem.createdAt = ''2024-01-01''\<rparr>"

section \<open>Library state controller (library.tsx, lines 109 to 414)\<close>

text \<open>
  An \<^verbatim>\<open>async\<close> function of the component is modelled in two parts, split at its \<^verbatim>\<open>await\<close>:
  the part that runs at once and names the client call it awaits, and the part that runs
  when the call has settled. The second part takes the cells of the render that created the
  function (its closure, \<open>cl\<close>), the time \<^verbatim>\<open>Date.now()\<close> would report, the settlement, and
  the current cells and cache; a functional update \<^verbatim>\<open>setX((prev) => ...)\<close> reads the current
  cells, a plain reference to a cell reads the closure.
\<close>

definition PAGE_SIZE :: int where
  "PAGE_SIZE = 30"

datatype api_call =
    FetchLibraryMeta
  | FetchLibraryClips int int
  | FetchFavoriteClips int int
  | SetClipFavorite string bool

definition persistCache :: "bool \<Rightarrow> int \<Rightarrow> library_data \<Rightarrow> cache_store \<Rightarrow> cache_store" where
  "persistCache favoritesOnly now next c =
     writeCachedState favoritesOnly
       \<lparr>clips = clips next, hasMoreFromServer = hasMoreFromServer next,
         nextOffset = nextOffset next, mainTagOptions = mainTagOptions next,
         videoTagOptions = videoTagOptions next, subTagOptions = subTagOptions next,
         positionOptions = positionOptions next, cachedAt = now\<rparr> c"

text \<open>\<^verbatim>\<open>Array.from(new Set(xs))\<close>: the first occurrence of each element, in order.\<close>

definition Array_from_Set :: "string list \<Rightarrow> string list" where
  "Array_from_Set xs = rev (remdups (rev xs))"

text \<open>
  \<^verbatim>\<open>Array.from(new Set(page.clips.flatMap((clip) => clip.mainTags || []))).sort()\<close>, for the
  member given; the default \<^verbatim>\<open>sort\<close> orders strings by their code units.
\<close>

definition tags_from :: "(Clip \<Rightarrow> string list) \<Rightarrow> Clip list \<Rightarrow> string list" where
  "tags_from member cs = sort (Array_from_Set (concat (map member cs)))"

text \<open>\<^verbatim>\<open>Array.from(new Set([...prev, ...fromClips])).sort()\<close>.\<close>

definition merge_options :: "string list \<Rightarrow> string list \<Rightarrow> string list" where
  "merge_options prev fromClips = sort (Array_from_Set (prev @ fromClips))"

definition page_call :: "bool \<Rightarrow> int \<Rightarrow> api_call" where
  "page_call favoritesOnly off =
     (if favoritesOnly then FetchFavoriteClips PAGE_SIZE off else FetchLibraryClips PAGE_SIZE off)"

subsection \<open>Activation: the two mount effects (lines 127 to 208)\<close>

text \<open>The cache branch of the second effect: seven cells from the cached object, then \<^verbatim>\<open>setIsLoading(false)\<close>.\<close>

definition hydrate :: "'a library_data_scheme \<Rightarrow> page_state \<Rightarrow> page_state" where
  "hydrate cached s =
     s\<lparr>clips := clips cached, hasMoreFromServer := hasMoreFromServer cached,
       nextOffset := nextOffset cached, mainTagOptions := mainTagOptions cached,
       videoTagOptions := videoTagOptions cached, subTagOptions := subTagOptions cached,
       positionOptions := positionOptions cached, isLoading := False\<rparr>"

text \<open>
  When the cache read returns a truthy value that is not an entry, the seven setters receive
  members that are absent or of other types: the cells leave their declared types, and what
  the following renders do is not modelled.
\<close>

datatype mount_failure = CellsOutsideTypes

text \<open>
  The effects of the first render, in the order they are declared: \<^verbatim>\<open>loadMeta()\<close> calls
  \<^verbatim>\<open>fetchLibraryMeta\<close>; then the cache is read, and either the cells are hydrated (the test is
  \<^verbatim>\<open>if (cached)\<close>, so a falsy value counts as a miss) or \<^verbatim>\<open>loadFirstPage()\<close> calls the
  paginated fetch at offset 0. The result has the cells, the cache and the client calls
  issued, in order.
\<close>

definition mount :: "bool \<Rightarrow> int \<Rightarrow> cache_store \<Rightarrow> mount_failure + (page_state \<times> cache_store \<times> api_call list)" where
  "mount favoritesOnly now c =
     (let calls = [FetchLibraryMeta]
      in case readCachedState now favoritesOnly c of
           (Some (Entry cached t), c1) \<Rightarrow> Inr (hydrate cached initial_state, c1, calls)
         | (Some (Truthy t), c1) \<Rightarrow> Inl CellsOutsideTypes
         | (Some Falsy, c1) \<Rightarrow>
             Inr (initial_state\<lparr>isLoading := True, errorMessage := None\<rparr>, c1,
                  calls @ [page_call favoritesOnly 0])
         | (None, c1) \<Rightarrow>
             Inr (initial_state\<lparr>isLoading := True, errorMessage := None\<rparr>, c1,
                  calls @ [page_call favoritesOnly 0]))"

text \<open>\<^verbatim>\<open>loadMeta\<close> after its \<^verbatim>\<open>await\<close>; \<open>alive\<close> is the flag the effect's cleanup clears.\<close>

definition loadMeta_done :: "bool \<Rightarrow> thrown + LibraryMeta \<Rightarrow> page_state \<Rightarrow> page_state" where
  "loadMeta_done alive r s =
     (if \<not> alive then s
      else case r of
        Inr meta \<Rightarrow>
          s\<lparr>mainTagOptions := LibraryMeta.mainTagOptions meta,
            videoTagOptions := LibraryMeta.videoTagOptions meta,
            subTagOptions := LibraryMeta.subTagOptions meta,
            positionOptions := LibraryMeta.positionOptions meta\<rparr>
      | Inl e \<Rightarrow> s\<lparr>errorMessage := Some (message e)\<rparr>)"

text \<open>\<^verbatim>\<open>loadFirstPage\<close> after its \<^verbatim>\<open>await\<close>.\<close>

definition loadFirstPage_done ::
  "bool \<Rightarrow> page_state \<Rightarrow> int \<Rightarrow> bool \<Rightarrow> thrown + ClipsPage \<Rightarrow> page_state \<times> cache_store \<Rightarrow> page_state \<times> cache_store" where
  "loadFirstPage_done favoritesOnly cl now alive r sc =
     (case sc of (s, c) \<Rightarrow>
      if \<not> alive then (s, c)
      else (case r of
        Inr page \<Rightarrow>
          (let mainFromClips = tags_from mainTags (ClipsPage.clips page);
              videoFromClips = tags_from videoTags (ClipsPage.clips page);
              subFromClips = tags_from subTags (ClipsPage.clips page);
              s1 = s\<lparr>mainTagOptions := merge_options (mainTagOptions s) mainFromClips,
                     videoTagOptions := merge_options (videoTagOptions s) videoFromClips,
                     subTagOptions := merge_options (subTagOptions s) subFromClips,
                     clips := ClipsPage.clips page,
                     hasMoreFromServer := hasMore page,
                     nextOffset := ClipsPage.nextOffset page\<rparr>;
              c1 = persistCache favoritesOnly now
                     \<lparr>clips = ClipsPage.clips page, hasMoreFromServer = hasMore page,
                       nextOffset = ClipsPage.nextOffset page,
                       mainTagOptions = merge_options (mainTagOptions cl) mainFromClips,
                       videoTagOptions = merge_options (videoTagOptions cl) videoFromClips,
                       subTagOptions = merge_options (subTagOptions cl) subFromClips,
                       positionOptions = positionOptions cl\<rparr> c
           in (s1\<lparr>isLoading := False\<rparr>, c1))
      | Inl e \<Rightarrow> (s\<lparr>errorMessage := Some (message e), isLoading := False\<rparr>, c)))"

subsection \<open>Loading more (lines 210 to 278)\<close>

text \<open>The guard shared by \<^verbatim>\<open>loadMoreClips\<close> and the background prefetch effect.\<close>

definition load_blocked :: "page_state \<Rightarrow> bool" where
  "load_blocked s = (isLoading s \<or> isLoadingMore s \<or> \<not> hasMoreFromServer s)"

text \<open>
  \<^verbatim>\<open>loadMoreClips\<close> up to its \<^verbatim>\<open>await\<close>: the cells, and the call awaited, if any. The guard and
  the cursor are read from the closure \<open>cl\<close>, the cells of the render that created the
  callback; the two setters write the current cells \<open>s\<close>.
\<close>

definition loadMoreClips_begin :: "bool \<Rightarrow> page_state \<Rightarrow> page_state \<Rightarrow> page_state \<times> api_call option" where
  "loadMoreClips_begin favoritesOnly cl s =
     (if load_blocked cl then (s, None)
      else (s\<lparr>isLoadingMore := True, errorMessage := None\<rparr>,
            Some (page_call favoritesOnly (nextOffset cl))))"

text \<open>\<^verbatim>\<open>loadMoreClips\<close> after its \<^verbatim>\<open>await\<close>.\<close>

definition loadMoreClips_done ::
  "bool \<Rightarrow> page_state \<Rightarrow> int \<Rightarrow> thrown + ClipsPage \<Rightarrow> page_state \<times> cache_store \<Rightarrow> page_state \<times> cache_store" where
  "loadMoreClips_done favoritesOnly cl now r sc =
     (case sc of (s, c) \<Rightarrow>
      (case r of
        Inr page \<Rightarrow>
          (let s1 = s\<lparr>clips := clips s @ ClipsPage.clips page\<rparr>;
              mainFromClips = tags_from mainTags (ClipsPage.clips page);
              videoFromClips = tags_from videoTags (ClipsPage.clips page);
              subFromClips = tags_from subTags (ClipsPage.clips page);
              mergedMain = merge_options (mainTagOptions cl) mainFromClips;
              mergedVideo = merge_options (videoTagOptions cl) videoFromClips;
              mergedSub = merge_options (subTagOptions cl) subFromClips;
              nextClips = clips cl @ ClipsPage.clips page;
              s2 = s1\<lparr>mainTagOptions := mergedMain, videoTagOptions := mergedVideo,
                      subTagOptions := mergedSub, hasMoreFromServer := hasMore page,
                      nextOffset := ClipsPage.nextOffset page\<rparr>;
              c1 = persistCache favoritesOnly now
                     \<lparr>clips = nextClips, hasMoreFromServer = hasMore page,
                       nextOffset = ClipsPage.nextOffset page, mainTagOptions = mergedMain,
                       videoTagOptions = mergedVideo, subTagOptions = mergedSub,
                       positionOptions = positionOptions cl\<rparr> c
           in (s2\<lparr>isLoadingMore := False\<rparr>, c1))
      | Inl e \<Rightarrow> (s\<lparr>errorMessage := Some (message e), isLoadingMore := False\<rparr>, c)))"

text \<open>
  The background prefetch effect arms its 350 ms timer exactly when the guard is open; the
  timer calls \<^verbatim>\<open>loadMoreClips\<close>.
\<close>

definition prefetch_armed :: "page_state \<Rightarrow> bool" where
  "prefetch_armed s = (\<not> load_blocked s)"

subsection \<open>Favorite toggle (lines 368 to 414)\<close>

text \<open>The mapping \<^verbatim>\<open>(item) => (item.id === clip.id ? { ...item, isFavorite: v } : item)\<close>.\<close>

definition set_favorite :: "string \<Rightarrow> bool \<Rightarrow> Clip \<Rightarrow> Clip" where
  "set_favorite cid v item = (if clipId item = cid then item\<lparr>isFavorite := Some v\<rparr> else item)"

text \<open>\<^verbatim>\<open>handleToggleFavorite\<close> up to its \<^verbatim>\<open>await\<close>: the optimistic update.\<close>

definition handleToggleFavorite_begin :: "Clip \<Rightarrow> page_state \<Rightarrow> page_state \<times> api_call" where
  "handleToggleFavorite_begin clip s =
     (let next = \<not> truthy (isFavorite clip)
      in (s\<lparr>clips := map (set_favorite (clipId clip) next) (clips s),
            selectedClip := map_option (set_favorite (clipId clip) next) (selectedClip s)\<rparr>,
          SetClipFavorite (clipId clip) next))"

text \<open>\<^verbatim>\<open>handleToggleFavorite\<close> after its \<^verbatim>\<open>await\<close>: the \<^verbatim>\<open>try\<close> continues, or the \<^verbatim>\<open>catch\<close> runs.\<close>

definition handleToggleFavorite_done ::
  "bool \<Rightarrow> page_state \<Rightarrow> Clip \<Rightarrow> int \<Rightarrow> thrown + unit \<Rightarrow> page_state \<times> cache_store \<Rightarrow> page_state \<times> cache_store" where
  "handleToggleFavorite_done favoritesOnly cl clip now r sc =
     (case sc of (s, c) \<Rightarrow>
      let next = \<not> truthy (isFavorite clip)
      in (case r of
        Inr u \<Rightarrow>
          (let c1 = clearLibraryCaches c
           in if favoritesOnly \<and> \<not> next
             then let nextClips = filter (\<lambda>item. clipId item \<noteq> clipId clip) (clips s);
                      c2 = persistCache favoritesOnly now
                             \<lparr>clips = nextClips, hasMoreFromServer = hasMoreFromServer cl,
                               nextOffset = nextOffset cl, mainTagOptions = mainTagOptions cl,
                               videoTagOptions = videoTagOptions cl,
                               subTagOptions = subTagOptions cl,
                               positionOptions = positionOptions cl\<rparr> c1
                  in (s\<lparr>selectedClip := None, clips := nextClips\<rparr>, c2)
             else let nextClips = map (set_favorite (clipId clip) next) (clips cl);
                      c2 = persistCache favoritesOnly now
                             \<lparr>clips = nextClips, hasMoreFromServer = hasMoreFromServer cl,
                               nextOffset = nextOffset cl, mainTagOptions = mainTagOptions cl,
                               videoTagOptions = videoTagOptions cl,
                               subTagOptions = subTagOptions cl,
                               positionOptions = positionOptions cl\<rparr> c1
                  in (s, c2))
      | Inl e \<Rightarrow>
          (s\<lparr>clips := map (set_favorite (clipId clip) (\<not> next)) (clips s),
             selectedClip := map_option (set_favorite (clipId clip) (\<not> next)) (selectedClip s)\<rparr>,
           c)))"

text \<open>The snapshot \<^verbatim>\<open>persistCache\<close> takes of the cells at a given time.\<close>

definition snapshot_of :: "page_state \<Rightarrow> int \<Rightarrow> CachedLibraryState" where
  "snapshot_of s now =
     \<lparr>clips = clips s, hasMoreFromServer = hasMoreFromServer s, nextOffset = nextOffset s,
       mainTagOptions = mainTagOptions s, videoTagOptions = videoTagOptions s,
       subTagOptions = subTagOptions s, positionOptions = positionOptions s, cachedAt = now\<rparr>"

text \<open>
  A fresh entry for a view variant: a snapshot younger than the time to live that the memory
  tier holds under the variant's key, or that a readable persistent tier holds there while
  the memory tier has nothing fresh.
\<close>

definition fresh_entry :: "int \<Rightarrow> bool \<Rightarrow> cache_store \<Rightarrow> CachedLibraryState \<Rightarrow> bool" where
  "fresh_entry now favoritesOnly c e =
     (now - cachedAt e < CACHE_TTL_MS \<and>
      (memoryCache c (cacheKey favoritesOnly) = Some (Snapshot e) \<or>
       (\<not> memory_fresh now (cacheKey favoritesOnly) c \<and> storage c \<noteq> Blocked \<and>
        sessionStorage c (cacheKey favoritesOnly) = Some (StateText e))))"

subsection \<open>The controller as a machine driven by events\<close>

text \<open>
  A call that has been issued and not yet settled, with the closure of the function that
  awaits it.
\<close>

datatype awaited =
    AwaitMeta
  | AwaitFirstPage page_state
  | AwaitMore page_state
  | AwaitToggle page_state Clip

fun is_page_fetch :: "awaited \<Rightarrow> bool" where
  "is_page_fetch AwaitMeta = False"
| "is_page_fetch (AwaitFirstPage cl) = True"
| "is_page_fetch (AwaitMore cl) = True"
| "is_page_fetch (AwaitToggle cl clip) = False"

text \<open>
  A mounted component: the current cells, the cells as the latest render saw them (the
  closure of every callback that render created), the cache, and the calls awaited.
\<close>

record controller =
  ui :: page_state
  rendered :: page_state
  store :: cache_store
  pending :: "awaited list"

datatype settlement =
    MetaSettled "thrown + LibraryMeta"
  | PageSettled "thrown + ClipsPage"
  | FavoriteSettled "thrown + unit"

text \<open>
  What can happen to a mounted component: it renders again; \<^verbatim>\<open>loadMoreClips\<close> of the latest
  render is invoked (by the prefetch timer, or by the list's intersection observer); the
  favorite button of a clip is pressed; a clip is selected or the selection closed; or the
  awaited call at a position of the pending list settles at a given time.
\<close>

datatype event =
    Render
  | InvokeLoadMore
  | InvokeToggle Clip
  | SelectClip "Clip option"
  | Settle nat int settlement

definition remove_nth :: "nat \<Rightarrow> 'a list \<Rightarrow> 'a list" where
  "remove_nth i xs = take i xs @ drop (Suc i) xs"

text \<open>The continuation of an awaited call; \<open>None\<close> when the settlement is not of its kind.\<close>

fun settle :: "bool \<Rightarrow> int \<Rightarrow> awaited \<Rightarrow> settlement \<Rightarrow> page_state \<times> cache_store \<Rightarrow> (page_state \<times> cache_store) option" where
  "settle v now AwaitMeta (MetaSettled r) sc = Some (loadMeta_done True r (fst sc), snd sc)"
| "settle v now (AwaitFirstPage cl) (PageSettled r) sc = Some (loadFirstPage_done v cl now True r sc)"
| "settle v now (AwaitMore cl) (PageSettled r) sc = Some (loadMoreClips_done v cl now r sc)"
| "settle v now (AwaitToggle cl clip) (FavoriteSettled r) sc =
     Some (handleToggleFavorite_done v cl clip now r sc)"
| "settle v now a r sc = None"

text \<open>
  One event. A callback reads the cells of the render that created it and writes the
  current cells; only \<open>Render\<close> brings the two together.
\<close>

definition step :: "bool \<Rightarrow> event \<Rightarrow> controller \<Rightarrow> controller" where
  "step v ev k =
     (case ev of
        Render \<Rightarrow> k\<lparr>rendered := ui k\<rparr>
      | InvokeLoadMore \<Rightarrow>
          (case loadMoreClips_begin v (rendered k) (ui k) of
             (s1, None) \<Rightarrow> k\<lparr>ui := s1\<rparr>
           | (s1, Some call) \<Rightarrow> k\<lparr>ui := s1, pending := pending k @ [AwaitMore (rendered k)]\<rparr>)
      | InvokeToggle clip \<Rightarrow>
          (case handleToggleFavorite_begin clip (ui k) of
             (s1, call) \<Rightarrow> k\<lparr>ui := s1, pending := pending k @ [AwaitToggle (rendered k) clip]\<rparr>)
      | SelectClip x \<Rightarrow> k\<lparr>ui := (ui k)\<lparr>selectedClip := x\<rparr>\<rparr>
      | Settle i now r \<Rightarrow>
          (if i < length (pending k)
           then (case settle v now (pending k ! i) r (ui k, store k) of
                   None \<Rightarrow> k
                 | Some (s1, c1) \<Rightarrow> k\<lparr>ui := s1, store := c1, pending := remove_nth i (pending k)\<rparr>)
           else k))"

text \<open>The calls of the mount effects, as awaited calls; the effects close over the first render.\<close>

fun mount_await :: "api_call \<Rightarrow> awaited" where
  "mount_await FetchLibraryMeta = AwaitMeta"
| "mount_await call = AwaitFirstPage initial_state"

definition started :: "bool \<Rightarrow> int \<Rightarrow> cache_store \<Rightarrow> controller option" where
  "started v now c =
     (case mount v now c of
        Inl failure \<Rightarrow> None
      | Inr (s, c1, calls) \<Rightarrow>
          Some \<lparr>ui = s, rendered = initial_state, store = c1, pending = map mount_await calls\<rparr>)"

text \<open>The paginated fetches that are outstanding.\<close>

definition page_fetches :: "controller \<Rightarrow> nat" where
  "page_fetches k = length (filter is_page_fetch (pending k))"

subsection \<open>Sample values for the closed instances of the controller\<close>

definition one_clip_snapshot :: "int \<Rightarrow> CachedLibraryState" where
  "one_clip_snapshot T = \<lparr>clips = [sample_clip ''c1''], hasMoreFromServer = True, nextOffset = 30,
     mainTagOptions = [''A''], videoTagOptions = [], subTagOptions = [], positionOptions = [],
     cachedAt = T\<rparr>"


definition favorite_clip :: "string \<Rightarrow> Clip" where
  "favorite_clip i = (sample_clip i)\<lparr>isFavorite := Some True\<rparr>"

definition idle_state :: "Clip list \<Rightarrow> page_state" where
  "idle_state cs = initial_state\<lparr>clips := cs, isLoading := False\<rparr>"

text \<open>The favorites view with two favorite clips, the first of them selected.\<close>

definition favorites_controller :: controller where
  "favorites_controller =
     \<lparr>ui = (idle_state [favorite_clip ''a'', favorite_clip ''b''])\<lparr>selectedClip := Some (favorite_clip ''a'')\<rparr>,
       rendered = (idle_state [favorite_clip ''a'', favorite_clip ''b''])\<lparr>selectedClip := Some (favorite_clip ''a'')\<rparr>,
       store = empty_store Working, pending = []\<rparr>"

text \<open>
  The library view with one page loaded and more to come, as a cache hit leaves it: idle,
  rendered, the metadata request of the mount still awaited.
\<close>

definition more_state :: page_state where
  "more_state = (idle_state [sample_clip ''c1''])\<lparr>hasMoreFromServer := True, nextOffset := 30,
     mainTagOptions := [''A'']\<rparr>"

definition more_controller :: controller where
  "more_controller =
     \<lparr>ui = more_state, rendered = more_state, store = empty_store Working, pending = [AwaitMeta]\<rparr>"

definition second_page :: ClipsPage where
  "second_page = sample_page [(sample_clip ''c2'')\<lparr>mainTags := [''B'', ''A'']\<rparr>] 60 False"

text \<open>The metadata of a server that knows a main tag no loaded clip carries.\<close>

definition wide_meta :: LibraryMeta where
  "wide_meta = \<lparr>LibraryMeta.mainTagOptions = [''A'', ''M''], LibraryMeta.videoTagOptions = [],
     LibraryMeta.subTagOptions = [], LibraryMeta.positionOptions = [''Guard'']\<rparr>"

section \<open>Verified properties\<close>

subsection \<open>Cache store\<close>

lemma cacheKey_inject: "cacheKey a = cacheKey b \<longleftrightarrow> a = b"
  by (cases a; cases b) (simp_all add: cacheKey_def)

lemmas cache_defs = readCachedState_def try_read_def writeCachedState_def Let_def
  JSON_stringify_def StateText_def getItem_def setItem_def removeItem_def memory_fresh_def

lemma Snapshot_simps [simp]:
  "stamp_of (Snapshot s) = At (cachedAt s)"
  "truthy_value (Snapshot s)"
  "is_snapshot (Snapshot s)"
  by (simp_all add: Snapshot_def)

lemma age_below_not_reaches: "age_below_ttl now t \<Longrightarrow> \<not> age_reaches_ttl now t"
  by (cases t) simp_all


text \<open>
  Claim C9. Writing a snapshot for one view variant leaves the entry stored under the other
  variant's key as it was, in the memory tier and in the persistent tier, whatever the
  store held and whether or not the persistent write went through.
\<close>

theorem write_leaves_other_variant:
  "memoryCache (writeCachedState v st c) (cacheKey (\<not> v)) = memoryCache c (cacheKey (\<not> v)) \<and>
   sessionStorage (writeCachedState v st c) (cacheKey (\<not> v)) = sessionStorage c (cacheKey (\<not> v))"
  by (cases "storage c") (simp_all add: writeCachedState_def setItem_def Let_def cacheKey_inject)

theorem write_leaves_other_variant_witness:
  "memoryCache (writeCachedState True (empty_snapshot 7)
      ((empty_store Working)\<lparr>memoryCache := [cacheKey False \<mapsto> Snapshot (empty_snapshot 3)],
         sessionStorage := [cacheKey False \<mapsto> StateText (empty_snapshot 3)]\<rparr>)) (cacheKey False)
     = Some (Snapshot (empty_snapshot 3)) \<and>
   sessionStorage (writeCachedState True (empty_snapshot 7)
      ((empty_store Working)\<lparr>memoryCache := [cacheKey False \<mapsto> Snapshot (empty_snapshot 3)],
         sessionStorage := [cacheKey False \<mapsto> StateText (empty_snapshot 3)]\<rparr>)) (cacheKey False)
     = Some (StateText (empty_snapshot 3))"
  using write_leaves_other_variant [of True "empty_snapshot 7"
      "(empty_store Working)\<lparr>memoryCache := [cacheKey False \<mapsto> Snapshot (empty_snapshot 3)],
         sessionStorage := [cacheKey False \<mapsto> StateText (empty_snapshot 3)]\<rparr>"]
  by simp







subsection \<open>Filtering\<close>

lemma startsWith_iff: "startsWith s q \<longleftrightarrow> (\<exists>post. s = q @ post)"
  by (induction s q rule: startsWith.induct) auto

text \<open>\<open>str_includes\<close> is the substring test: the query occurs as a contiguous run.\<close>

lemma str_includes_iff: "str_includes s q \<longleftrightarrow> (\<exists>pre post. s = pre @ q @ post)"
proof (induction s)
  case Nil
  then show ?case by simp
next
  case (Cons ch s)
  show ?case
  proof
    assume "str_includes (ch # s) q"
    then consider "startsWith (ch # s) q" | "str_includes s q" by auto
    then show "\<exists>pre post. ch # s = pre @ q @ post"
    proof cases
      case 1
      then obtain post where "ch # s = q @ post" by (auto simp: startsWith_iff)
      then have "ch # s = [] @ q @ post" by simp
      then show ?thesis by blast
    next
      case 2
      then obtain pre post where "s = pre @ q @ post" using Cons.IH by blast
      then have "ch # s = (ch # pre) @ q @ post" by simp
      then show ?thesis by blast
    qed
  next
    assume "\<exists>pre post. ch # s = pre @ q @ post"
    then obtain pre post where eq: "ch # s = pre @ q @ post" by blast
    show "str_includes (ch # s) q"
    proof (cases pre)
      case Nil
      with eq have "startsWith (ch # s) q" by (auto simp: startsWith_iff)
      then show ?thesis by simp
    next
      case (Cons p pre')
      with eq have "s = pre' @ q @ post" by simp
      then have "str_includes s q" using Cons.IH by blast
      then show ?thesis by simp
    qed
  qed
qed

lemma search_accepts_eq:
  "search_accepts toLowerCase q clip \<longleftrightarrow> (q = [] \<or> search_matches toLowerCase (toLowerCase q) clip)"
  by (simp add: search_accepts_def search_matches_def ci_substring_def [abs_def])

lemma filter_when: "(if A then filter P xs else xs) = filter (\<lambda>x. A \<longrightarrow> P x) xs"
  by simp

lemma passes_unfold:
  "passes toLowerCase s clip \<longleftrightarrow>
     ((searchQuery s \<noteq> [] \<longrightarrow> search_matches toLowerCase (toLowerCase (searchQuery s)) clip) \<and>
      (selectedTypes s \<noteq> {} \<longrightarrow> type_string (type clip) \<in> selectedTypes s) \<and>
      (selectedMainTags s \<noteq> {} \<longrightarrow> list_ex (\<lambda>tag. tag \<in> selectedMainTags s) (mainTags clip)) \<and>
      (selectedVideoTags s \<noteq> {} \<longrightarrow> list_ex (\<lambda>tag. tag \<in> selectedVideoTags s) (videoTags clip)) \<and>
      (selectedSubTags s \<noteq> {} \<longrightarrow> list_ex (\<lambda>tag. tag \<in> selectedSubTags s) (subTags clip)) \<and>
      (selectedPositions s \<noteq> {} \<longrightarrow> position_matches (selectedPositions s) clip))"
  by (cases "position clip")
     (auto simp: passes_def facet_accepts_def search_accepts_eq
        nonempty_position_values_def position_values_def position_matches_def)

lemma filteredClips_eq: "filteredClips toLowerCase s = apply_sort (sortMode s) (filter (passes toLowerCase s) (clips s))"
proof -
  have "filteredClips toLowerCase s = apply_sort (sortMode s) (filter (\<lambda>clip.
      (searchQuery s \<noteq> [] \<longrightarrow> search_matches toLowerCase (toLowerCase (searchQuery s)) clip) \<and>
      (selectedTypes s \<noteq> {} \<longrightarrow> type_string (type clip) \<in> selectedTypes s) \<and>
      (selectedMainTags s \<noteq> {} \<longrightarrow> list_ex (\<lambda>tag. tag \<in> selectedMainTags s) (mainTags clip)) \<and>
      (selectedVideoTags s \<noteq> {} \<longrightarrow> list_ex (\<lambda>tag. tag \<in> selectedVideoTags s) (videoTags clip)) \<and>
      (selectedSubTags s \<noteq> {} \<longrightarrow> list_ex (\<lambda>tag. tag \<in> selectedSubTags s) (subTags clip)) \<and>
      (selectedPositions s \<noteq> {} \<longrightarrow> position_matches (selectedPositions s) clip)) (clips s))"
    unfolding filteredClips_def Let_def filter_when filter_filter
    by (rule arg_cong [where f = "apply_sort (sortMode s)"], rule filter_cong) auto
  then show ?thesis by (simp add: passes_unfold [abs_def])
qed

lemma mset_apply_sort: "mset (apply_sort m xs) = mset xs"
  by (cases m) simp_all

text \<open>
  Claim C1, as stated, fails for the position facet: the filter tests
  \<^verbatim>\<open>clip.position && selectedPositions.has(clip.position)\<close>, and the empty string is falsy. A
  clip whose position is the empty string is dropped even when the empty string is a selected
  position, although the clip matches a selected value. The search query is empty here, so
  \<open>toLowerCase\<close> is not applied to any text of the clip.
\<close>

theorem blank_position_counterexample:
   "passes_claimed ascii_lower blank_position_state blank_position_clip \<and>
   blank_position_clip \<in> set (clips blank_position_state) \<and>
   blank_position_clip \<notin> set (filteredClips ascii_lower blank_position_state)"
  by (simp add: blank_position_state_def blank_position_clip_def initial_state_def passes_claimed_def facet_accepts_def
     search_accepts_def position_values_def filteredClips_def position_matches_def sample_clip_def)

text \<open>
  Claim C1, amended. For every clip list and every selection state, and whatever function
  the engine's \<open>toLowerCase\<close> is, the filtered result is the list of the clips that every
  facet accepts, in the order of the list and then sorted as the sort mode says; so it
  contains exactly those clips, each as often as the list does. A facet without selection
  accepts every clip; the search facet accepts a clip when the lower-cased query is a
  substring of its lower-cased title, of its lower-cased summary or of one of its
  lower-cased general tags; a tag facet accepts a clip when one of its tags in that facet
  is selected; the type facet when its type is selected; and the position facet when its
  position is present, is not the empty string, and is selected.
\<close>

theorem filteredClips_exact:
  "filteredClips toLowerCase s = apply_sort (sortMode s) (filter (passes toLowerCase s) (clips s)) \<and>
   mset (filteredClips toLowerCase s) = filter_mset (passes toLowerCase s) (mset (clips s)) \<and>
   set (filteredClips toLowerCase s) = {clip \<in> set (clips s). passes toLowerCase s clip}"
proof -
  have eq: "filteredClips toLowerCase s = apply_sort (sortMode s) (filter (passes toLowerCase s) (clips s))"
    by (rule filteredClips_eq)
  have "mset (filteredClips toLowerCase s) = filter_mset (passes toLowerCase s) (mset (clips s))"
    by (simp add: eq mset_apply_sort)
  moreover from this have "set (filteredClips toLowerCase s) = {clip \<in> set (clips s). passes toLowerCase s clip}"
    by (metis set_mset_mset set_mset_filter)
  ultimately show ?thesis using eq by simp
qed

theorem filteredClips_exact_witness:
  "filteredClips ascii_lower (two_clip_state\<lparr>selectedMainTags := {''A''}\<rparr>) = clips two_clip_state \<and>
   filteredClips ascii_lower (two_clip_state\<lparr>selectedMainTags := {''A'', ''B''}\<rparr>) = clips two_clip_state \<and>
   filteredClips ascii_lower (two_clip_state\<lparr>selectedMainTags := {''A''}, selectedTypes := {''Concept''}\<rparr>)
     = [(sample_clip ''c1'')\<lparr>mainTags := [''A'', ''B''], type := Concept\<rparr>]"
  using filteredClips_exact [of ascii_lower "two_clip_state\<lparr>selectedMainTags := {''A''}\<rparr>"]
    filteredClips_exact [of ascii_lower "two_clip_state\<lparr>selectedMainTags := {''A'', ''B''}\<rparr>"]
    filteredClips_exact [of ascii_lower "two_clip_state\<lparr>selectedMainTags := {''A''}, selectedTypes := {''Concept''}\<rparr>"]
  by (simp add: two_clip_state_def initial_state_def sample_clip_def passes_def facet_accepts_def
      search_accepts_def nonempty_position_values_def position_values_def)

lemma search_example: "filteredClips ascii_lower (two_clip_state\<lparr>searchQuery := ''GUARD''\<rparr>) = clips two_clip_state"
  by (simp add: two_clip_state_def initial_state_def sample_clip_def filteredClips_def search_matches_def
      ascii_lower_def ascii_lower_char_def)

subsection \<open>Remote data client\<close>

text \<open>
  Claim C8. Each JSON operation of the client issues exactly one request. When the response
  status is outside 200 to 299, the operation fails with the \<^verbatim>\<open>Error\<close> whose message names
  the endpoint. When the status is inside that range and the body is JSON, the operation
  yields the parsed body: the body itself for the metadata and the two clip pages, the
  \<^verbatim>\<open>videos\<close> member of the body for \<^verbatim>\<open>fetchVideos\<close>, and nothing for \<^verbatim>\<open>setClipFavorite\<close>, which
  does not read the body.
\<close>

theorem client_settles:
  fixes meta_net :: "request \<Rightarrow> LibraryMeta fetch_outcome"
    and page_net :: "request \<Rightarrow> ClipsPage fetch_outcome"
    and any_net :: "request \<Rightarrow> 'b fetch_outcome"
    and videos_net :: "request \<Rightarrow> videos_envelope fetch_outcome"
  shows
   "fst (fetchLibraryMeta meta_net) = [GetLibraryMeta] \<and>
    (meta_net GetLibraryMeta = Response status mbody \<and> \<not> ok status \<longrightarrow>
       snd (fetchLibraryMeta meta_net) = Inl (Error ''Failed to load library metadata'')) \<and>
    (meta_net GetLibraryMeta = Response status (Json meta) \<and> ok status \<longrightarrow>
       snd (fetchLibraryMeta meta_net) = Inr meta) \<and>
    fst (fetchLibraryClips page_net lim off) = [GetLibraryClips lim off] \<and>
    (page_net (GetLibraryClips lim off) = Response status pbody \<and> \<not> ok status \<longrightarrow>
       snd (fetchLibraryClips page_net lim off) = Inl (Error ''Failed to load clips'')) \<and>
    (page_net (GetLibraryClips lim off) = Response status (Json page) \<and> ok status \<longrightarrow>
       snd (fetchLibraryClips page_net lim off) = Inr page) \<and>
    fst (fetchFavoriteClips page_net lim off) = [GetLibraryFavorites lim off] \<and>
    (page_net (GetLibraryFavorites lim off) = Response status pbody \<and> \<not> ok status \<longrightarrow>
       snd (fetchFavoriteClips page_net lim off) = Inl (Error ''Failed to load favorite clips'')) \<and>
    (page_net (GetLibraryFavorites lim off) = Response status (Json page) \<and> ok status \<longrightarrow>
       snd (fetchFavoriteClips page_net lim off) = Inr page) \<and>
    fst (setClipFavorite any_net cid val) = [PostClipFavorite cid val] \<and>
    (any_net (PostClipFavorite cid val) = Response status abody \<and> \<not> ok status \<longrightarrow>
       snd (setClipFavorite any_net cid val) = Inl (Error ''Failed to update favorite'')) \<and>
    (any_net (PostClipFavorite cid val) = Response status abody \<and> ok status \<longrightarrow>
       snd (setClipFavorite any_net cid val) = Inr ()) \<and>
    fst (fetchVideos videos_net) = [GetLibraryVideos] \<and>
    (videos_net GetLibraryVideos = Response status vbody \<and> \<not> ok status \<longrightarrow>
       snd (fetchVideos videos_net) = Inl (Error ''Failed to load videos'')) \<and>
    (videos_net GetLibraryVideos = Response status (Json envelope) \<and> ok status \<longrightarrow>
       snd (fetchVideos videos_net) = Inr (videos envelope))"
  by (simp add: fetchLibraryMeta_def fetchLibraryClips_def fetchFavoriteClips_def
      setClipFavorite_def fetchVideos_def Let_def)

theorem client_settles_witness:
  "fetchLibraryMeta unavailable = ([GetLibraryMeta], Inl (Error ''Failed to load library metadata'')) \<and>
   fetchLibraryClips unavailable 30 0 = ([GetLibraryClips 30 0], Inl (Error ''Failed to load clips'')) \<and>
   fetchFavoriteClips unavailable 30 0
     = ([GetLibraryFavorites 30 0], Inl (Error ''Failed to load favorite clips'')) \<and>
   setClipFavorite (unavailable :: request \<Rightarrow> unit fetch_outcome) ''c1'' True
     = ([PostClipFavorite ''c1'' True], Inl (Error ''Failed to update favorite'')) \<and>
   fetchVideos unavailable = ([GetLibraryVideos], Inl (Error ''Failed to load videos'')) \<and>
   fetchLibraryMeta (serving sample_meta) = ([GetLibraryMeta], Inr sample_meta) \<and>
   fetchLibraryClips (serving (sample_page [sample_clip ''c1''] 30 False)) 30 0
     = ([GetLibraryClips 30 0], Inr (sample_page [sample_clip ''c1''] 30 False)) \<and>
   fetchFavoriteClips (serving (sample_page [sample_clip ''c1''] 30 False)) 30 0
     = ([GetLibraryFavorites 30 0], Inr (sample_page [sample_clip ''c1''] 30 False)) \<and>
   setClipFavorite (serving ()) ''c1'' True = ([PostClipFavorite ''c1'' True], Inr ()) \<and>
   fetchVideos (serving \<lparr>videos = [sample_video]\<rparr>) = ([GetLibraryVideos], Inr [sample_video])"
  using client_settles [where meta_net = unavailable and page_net = unavailable
      and any_net = "unavailable :: request \<Rightarrow> unit fetch_outcome" and videos_net = unavailable
      and status = 503 and mbody = "NotJson ''Service Unavailable''"
      and pbody = "NotJson ''Service Unavailable''" and abody = "NotJson ''Service Unavailable''"
      and vbody = "NotJson ''Service Unavailable''" and lim = 30 and off = 0 and cid = "''c1''"
      and val = True and meta = sample_meta and page = "sample_page [] 0 False"
      and envelope = "\<lparr>videos = []\<rparr>"]
    client_settles [where meta_net = "serving sample_meta"
      and page_net = "serving (sample_page [sample_clip ''c1''] 30 False)"
      and any_net = "serving ()" and videos_net = "serving \<lparr>videos = [sample_video]\<rparr>"
      and status = 200 and mbody = "Json sample_meta"
      and pbody = "Json (sample_page [sample_clip ''c1''] 30 False)" and abody = "Json ()"
      and vbody = "Json \<lparr>videos = [sample_video]\<rparr>" and lim = 30 and off = 0 and cid = "''c1''"
      and val = True and meta = sample_meta and page = "sample_page [sample_clip ''c1''] 30 False"
      and envelope = "\<lparr>videos = [sample_video]\<rparr>"]
  by (simp add: unavailable_def serving_def ok_def prod_eq_iff)

subsection \<open>Activation\<close>

lemma read_fresh_entry:
  assumes "fresh_entry now v c e"
  shows "fst (readCachedState now v c) = Some (Snapshot e)"
    and "sessionStorage (snd (readCachedState now v c)) = sessionStorage c"
    and "memoryCache (snd (readCachedState now v c)) = (memoryCache c)(cacheKey v \<mapsto> Snapshot e)"
  using assms
  by (auto simp: fresh_entry_def cache_defs age_below_not_reaches split: option.splits)

text \<open>
  Claim C7, as stated, fails in its last part: the first mount effect calls
  \<^verbatim>\<open>fetchLibraryMeta\<close> whatever the cache holds, so an activation that finds a fresh entry still
  issues one network request.
\<close>

theorem mount_fetches_metadata_counterexample:
  "mount False 5 (writeCachedState False (one_clip_snapshot 0) (empty_store Working))
     = Inr (hydrate (one_clip_snapshot 0) initial_state,
            writeCachedState False (one_clip_snapshot 0) (empty_store Working),
            [FetchLibraryMeta])"
  by (simp add: mount_def cache_defs empty_store_def one_clip_snapshot_def CACHE_TTL_MS_def
      Snapshot_def hydrate_def)

text \<open>
  Claim C7, amended. When a fresh entry exists for the view variant, activation takes the
  clips, the pagination state and the four option lists from that entry, clears the loading
  flag, and issues no paginated clip request: the only call it issues is the metadata
  request, which every activation issues.
\<close>

theorem mount_fresh_cache:
  assumes "fresh_entry now v c cached"
  shows "mount v now c
           = Inr (hydrate cached initial_state, snd (readCachedState now v c), [FetchLibraryMeta]) \<and>
         clips (hydrate cached initial_state) = clips cached \<and>
         hasMoreFromServer (hydrate cached initial_state) = hasMoreFromServer cached \<and>
         nextOffset (hydrate cached initial_state) = nextOffset cached \<and>
         mainTagOptions (hydrate cached initial_state) = mainTagOptions cached \<and>
         videoTagOptions (hydrate cached initial_state) = videoTagOptions cached \<and>
         subTagOptions (hydrate cached initial_state) = subTagOptions cached \<and>
         positionOptions (hydrate cached initial_state) = positionOptions cached \<and>
         \<not> isLoading (hydrate cached initial_state) \<and>
         \<not> isLoadingMore (hydrate cached initial_state) \<and>
         page_call v 0 \<notin> set [FetchLibraryMeta]"
proof -
  have "fst (readCachedState now v c) = Some (Snapshot cached)"
    using assms by (rule read_fresh_entry)
  then have "mount v now c
      = Inr (hydrate cached initial_state, snd (readCachedState now v c), [FetchLibraryMeta])"
    by (cases "readCachedState now v c") (simp add: mount_def Let_def Snapshot_def hydrate_def)
  then show ?thesis
    by (simp add: hydrate_def initial_state_def page_call_def)
qed

theorem mount_fresh_cache_witness:
  "mount True 599999 ((empty_store Working)\<lparr>sessionStorage := [cacheKey True \<mapsto> StateText (one_clip_snapshot 0)]\<rparr>)
     = Inr (hydrate (one_clip_snapshot 0) initial_state,
            (empty_store Working)\<lparr>sessionStorage := [cacheKey True \<mapsto> StateText (one_clip_snapshot 0)],
               memoryCache := [cacheKey True \<mapsto> Snapshot (one_clip_snapshot 0)]\<rparr>,
            [FetchLibraryMeta])"
  using mount_fresh_cache [of 599999 True
      "(empty_store Working)\<lparr>sessionStorage := [cacheKey True \<mapsto> StateText (one_clip_snapshot 0)]\<rparr>"
      "one_clip_snapshot 0"]
  by (simp add: fresh_entry_def one_clip_snapshot_def CACHE_TTL_MS_def empty_store_def cache_defs
      Snapshot_def)

subsection \<open>Loading more\<close>

lemma set_Array_from_Set [simp]: "set (Array_from_Set xs) = set xs"
  by (simp add: Array_from_Set_def)

lemma distinct_Array_from_Set [simp]: "distinct (Array_from_Set xs)"
  by (simp add: Array_from_Set_def)

lemma merge_options_props:
  "set (merge_options prev fromClips) = set prev \<union> set fromClips"
  "sorted (merge_options prev fromClips)"
  "distinct (merge_options prev fromClips)"
  by (simp_all add: merge_options_def)

lemma set_tags_from: "set (tags_from member cs) = (\<Union>clip\<in>set cs. set (member clip))"
  by (simp add: tags_from_def)

lemma persistCache_memory:
  "memoryCache (persistCache v now next c) (cacheKey v) =
     Some (Snapshot \<lparr>clips = clips next, hasMoreFromServer = hasMoreFromServer next,
         nextOffset = nextOffset next, mainTagOptions = mainTagOptions next,
         videoTagOptions = videoTagOptions next, subTagOptions = subTagOptions next,
         positionOptions = positionOptions next, cachedAt = now\<rparr>)"
  by (cases "storage c") (simp_all add: persistCache_def writeCachedState_def setItem_def Let_def)

lemma persistCache_session:
  "storage c = Working \<Longrightarrow>
   sessionStorage (persistCache v now next c) (cacheKey v) =
     Some (StateText \<lparr>clips = clips next, hasMoreFromServer = hasMoreFromServer next,
         nextOffset = nextOffset next, mainTagOptions = mainTagOptions next,
         videoTagOptions = videoTagOptions next, subTagOptions = subTagOptions next,
         positionOptions = positionOptions next, cachedAt = now\<rparr>)"
  by (simp add: persistCache_def writeCachedState_def setItem_def Let_def JSON_stringify_def)

text \<open>
  The sample controller is what an activation that finds a fresh entry, followed by the
  first render, leaves: the cells of the entry, idle, and the metadata request awaited.
\<close>

lemma activation_reaches_more_controller:
  "map_option (\<lambda>k. (ui (step False Render k), rendered (step False Render k),
                    pending (step False Render k)))
     (started False 5 (writeCachedState False (one_clip_snapshot 0) (empty_store Working)))
   = Some (ui more_controller, rendered more_controller, pending more_controller)"
  by (simp add: started_def mount_def cache_defs empty_store_def one_clip_snapshot_def
      CACHE_TTL_MS_def Snapshot_def hydrate_def step_def more_controller_def more_state_def
      idle_state_def initial_state_def)

text \<open>
  What a successful load-more does whatever happened while it was awaited: the page's clips
  are appended to the current list, and the cursor and the has-more flag are the page's. The
  three option lists and the persisted snapshot are built from the closure, not from the
  current cells.
\<close>

lemma load_more_settles:
  "case loadMoreClips_done v cl now (Inr page) (s, c) of (s2, c2) \<Rightarrow>
     clips s2 = clips s @ ClipsPage.clips page \<and>
     nextOffset s2 = ClipsPage.nextOffset page \<and>
     hasMoreFromServer s2 = hasMore page \<and>
     \<not> isLoadingMore s2 \<and>
     positionOptions s2 = positionOptions s \<and>
     mainTagOptions s2 = merge_options (mainTagOptions cl) (tags_from mainTags (ClipsPage.clips page)) \<and>
     videoTagOptions s2 = merge_options (videoTagOptions cl) (tags_from videoTags (ClipsPage.clips page)) \<and>
     subTagOptions s2 = merge_options (subTagOptions cl) (tags_from subTags (ClipsPage.clips page)) \<and>
     memoryCache c2 (cacheKey v) =
       Some (Snapshot (snapshot_of (s2\<lparr>clips := clips cl @ ClipsPage.clips page,
                                        positionOptions := positionOptions cl\<rparr>) now))"
  by (simp add: loadMoreClips_done_def Let_def persistCache_memory snapshot_of_def)

text \<open>
  When nothing else settles while the page is awaited, so that the cells at settlement are
  those the invocation left and the closure is the cells it was invoked on, the step does
  what claim C4 says.
\<close>

lemma load_more_undisturbed:
  assumes "\<not> load_blocked s"
  shows "case loadMoreClips_begin v s s of (s1, call) \<Rightarrow>
           call = Some (page_call v (nextOffset s)) \<and>
           (case loadMoreClips_done v s now (Inr page) (s1, c) of (s2, c2) \<Rightarrow>
              clips s2 = clips s @ ClipsPage.clips page \<and>
              set (mainTagOptions s2)
                = set (mainTagOptions s) \<union> (\<Union>clip\<in>set (ClipsPage.clips page). set (mainTags clip)) \<and>
              set (videoTagOptions s2)
                = set (videoTagOptions s) \<union> (\<Union>clip\<in>set (ClipsPage.clips page). set (videoTags clip)) \<and>
              set (subTagOptions s2)
                = set (subTagOptions s) \<union> (\<Union>clip\<in>set (ClipsPage.clips page). set (subTags clip)) \<and>
              sorted (mainTagOptions s2) \<and> distinct (mainTagOptions s2) \<and>
              sorted (videoTagOptions s2) \<and> distinct (videoTagOptions s2) \<and>
              sorted (subTagOptions s2) \<and> distinct (subTagOptions s2) \<and>
              positionOptions s2 = positionOptions s \<and>
              nextOffset s2 = ClipsPage.nextOffset page \<and>
              hasMoreFromServer s2 = hasMore page \<and>
              \<not> isLoading s2 \<and> \<not> isLoadingMore s2 \<and>
              memoryCache c2 (cacheKey v) = Some (Snapshot (snapshot_of s2 now)) \<and>
              (storage c = Working \<longrightarrow>
                 sessionStorage c2 (cacheKey v) = Some (StateText (snapshot_of s2 now))))"
  using assms
  by (simp add: loadMoreClips_begin_def loadMoreClips_done_def Let_def merge_options_props
      set_tags_from persistCache_memory persistCache_session snapshot_of_def load_blocked_def)

lemmas run_defs = step_def loadMoreClips_begin_def loadMoreClips_done_def load_blocked_def
  loadMeta_done_def handleToggleFavorite_begin_def handleToggleFavorite_done_def Let_def
  remove_nth_def page_call_def PAGE_SIZE_def merge_options_def tags_from_def Array_from_Set_def
  set_favorite_def persistCache_def writeCachedState_def setItem_def JSON_stringify_def
  more_controller_def more_state_def second_page_def wide_meta_def sample_page_def
  idle_state_def initial_state_def sample_clip_def empty_store_def cacheKey_def
  snapshot_of_def page_fetches_def

text \<open>
  Claim C4 against the code. The library view is activated from a fresh cache entry, so the
  metadata request is still awaited when the prefetch timer invokes \<^verbatim>\<open>loadMoreClips\<close>. The
  metadata settles first and sets the main-tag options to \<open>A\<close>, \<open>M\<close> and the position
  options to \<open>Guard\<close>; the component renders; then the page settles. The clips are appended
  and the cursor is the page's, as the claim says; but the main-tag options become \<open>A\<close>, \<open>B\<close>:
  the option \<open>M\<close>, which was there before the step, is lost, and the snapshot persisted has
  no position option, while the cells have \<open>Guard\<close>.
\<close>

theorem load_more_overwrites_options:
  "mainTagOptions (ui (fold (step False)
       [InvokeLoadMore, Settle 0 5 (MetaSettled (Inr wide_meta)), Render] more_controller))
     = [''A'', ''M''] \<and>
   clips (ui (fold (step False)
       [InvokeLoadMore, Settle 0 5 (MetaSettled (Inr wide_meta)), Render,
        Settle 0 7 (PageSettled (Inr second_page))] more_controller))
     = [sample_clip ''c1'', (sample_clip ''c2'')\<lparr>mainTags := [''B'', ''A'']\<rparr>] \<and>
   mainTagOptions (ui (fold (step False)
       [InvokeLoadMore, Settle 0 5 (MetaSettled (Inr wide_meta)), Render,
        Settle 0 7 (PageSettled (Inr second_page))] more_controller))
     = [''A'', ''B''] \<and>
   positionOptions (ui (fold (step False)
       [InvokeLoadMore, Settle 0 5 (MetaSettled (Inr wide_meta)), Render,
        Settle 0 7 (PageSettled (Inr second_page))] more_controller))
     = [''Guard''] \<and>
   map_option (\<lambda>x. case x of Entry d t \<Rightarrow> positionOptions d | _ \<Rightarrow> [''?''])
       (memoryCache (store (fold (step False)
          [InvokeLoadMore, Settle 0 5 (MetaSettled (Inr wide_meta)), Render,
           Settle 0 7 (PageSettled (Inr second_page))] more_controller)) (cacheKey False))
     = Some []"
  by (simp add: run_defs Snapshot_def)

theorem load_more_overwrites_options_witness:
  "''M'' \<in> set (mainTagOptions (ui (fold (step False)
       [InvokeLoadMore, Settle 0 5 (MetaSettled (Inr wide_meta)), Render] more_controller))) \<and>
   ''M'' \<notin> set (mainTagOptions (ui (fold (step False)
       [InvokeLoadMore, Settle 0 5 (MetaSettled (Inr wide_meta)), Render,
        Settle 0 7 (PageSettled (Inr second_page))] more_controller)))"
  using load_more_overwrites_options by simp

text \<open>
  The guard of \<^verbatim>\<open>loadMoreClips\<close>, which the prefetch effect shares: an invocation whose
  closure has a loading flag set, or no more data, awaits nothing and leaves the cells as
  they are; an invocation that passes sets the load-more flag of the current cells.
\<close>

lemma load_more_guard:
  "(load_blocked cl \<longrightarrow> loadMoreClips_begin v cl s = (s, None)) \<and>
   (prefetch_armed s \<longleftrightarrow> \<not> load_blocked s) \<and>
   (\<not> load_blocked cl \<longrightarrow> load_blocked (fst (loadMoreClips_begin v cl s))) \<and>
   (load_blocked (rendered k) \<longrightarrow> step v InvokeLoadMore k = k)"
  by (simp add: loadMoreClips_begin_def prefetch_armed_def load_blocked_def step_def)

text \<open>
  Claim C5 against the code. The guard reads the loading flags of the render that created
  the callback. The prefetch timer and the list's intersection observer both hold the
  callback of the latest render; when both invoke it before the component renders again,
  both invocations pass the guard: two paginated fetches are outstanding, both at offset 30,
  and when both settle the page is in the list twice. With a render between the two
  invocations the second one is suppressed.
\<close>

theorem stale_guard_admits_second_fetch:
  "page_fetches (fold (step False) [InvokeLoadMore, InvokeLoadMore] more_controller) = 2 \<and>
   pending (fold (step False) [InvokeLoadMore, InvokeLoadMore] more_controller)
     = [AwaitMeta, AwaitMore more_state, AwaitMore more_state] \<and>
   loadMoreClips_begin False more_state
       (ui (fold (step False) [InvokeLoadMore] more_controller))
     = (ui (fold (step False) [InvokeLoadMore] more_controller), Some (FetchLibraryClips 30 30)) \<and>
   clips (ui (fold (step False)
       [InvokeLoadMore, InvokeLoadMore, Settle 1 7 (PageSettled (Inr second_page)),
        Settle 1 8 (PageSettled (Inr second_page))] more_controller))
     = [sample_clip ''c1'', (sample_clip ''c2'')\<lparr>mainTags := [''B'', ''A'']\<rparr>,
        (sample_clip ''c2'')\<lparr>mainTags := [''B'', ''A'']\<rparr>] \<and>
   page_fetches (fold (step False) [InvokeLoadMore, Render, InvokeLoadMore] more_controller) = 1"
  by (simp add: run_defs)

theorem stale_guard_admits_second_fetch_witness:
  "\<not> page_fetches (fold (step False) [InvokeLoadMore, InvokeLoadMore] more_controller) \<le> 1"
  using stale_guard_admits_second_fetch by simp

subsection \<open>Favorite toggle\<close>







lemma unfavorite_in_favorites_view:
  assumes "truthy (isFavorite clip)"
  shows "handleToggleFavorite_done True cl clip now (Inr ()) (s, c)
     = (s\<lparr>selectedClip := None, clips := filter (\<lambda>item. clipId item \<noteq> clipId clip) (clips s)\<rparr>,
        persistCache True now
          \<lparr>clips = filter (\<lambda>item. clipId item \<noteq> clipId clip) (clips s),
            hasMoreFromServer = hasMoreFromServer cl, nextOffset = nextOffset cl,
            mainTagOptions = mainTagOptions cl, videoTagOptions = videoTagOptions cl,
            subTagOptions = subTagOptions cl, positionOptions = positionOptions cl\<rparr>
          (clearLibraryCaches c))"
  using assms by (simp add: handleToggleFavorite_done_def Let_def)

text \<open>
  Claim C6 against the code. In favorites-only mode a successful unfavorite removes every
  entry with the clip's id from the list and persists the shortened list at once, as the
  claim says; but it clears the selected clip unconditionally. In this run clip \<open>a\<close> is
  selected and its favorite button pressed, clip \<open>b\<close> is selected before the call settles,
  and the successful settlement removes \<open>a\<close> from the list and closes the view of \<open>b\<close>.
\<close>

theorem unfavorite_clears_other_selection:
  "ui (fold (step True)
        [InvokeToggle (favorite_clip ''a''),
         SelectClip (Some (favorite_clip ''b'')),
         Settle 0 5 (FavoriteSettled (Inr ()))]
        favorites_controller)
     = (idle_state [favorite_clip ''b''])\<lparr>selectedClip := None\<rparr> \<and>
   clipId (favorite_clip ''b'') \<noteq> clipId (favorite_clip ''a'')"
  by (simp add: favorites_controller_def step_def handleToggleFavorite_begin_def
      handleToggleFavorite_done_def Let_def set_favorite_def remove_nth_def
      favorite_clip_def sample_clip_def idle_state_def initial_state_def)

theorem unfavorite_clears_other_selection_witness:
  "selectedClip (ui (fold (step True)
        [InvokeToggle (favorite_clip ''a''),
         SelectClip (Some (favorite_clip ''b'')),
         Settle 0 5 (FavoriteSettled (Inr ()))]
        favorites_controller)) \<noteq> Some (favorite_clip ''b'')"
  using unfavorite_clears_other_selection by simp

end
